theory Spec2Isabelle
  imports Complex_Main "HOL-Library.Char_ord" "HOL-Library.List_Lexorder"
begin

section \<open>Values, errors and tables\<close>

text \<open>
  The program (\<^verbatim>\<open>app.py\<close>) reads four JSON files into pandas frames, joins three of them
  and serves three charts. A JSON scalar, once it sits in a frame, is a null (\<^verbatim>\<open>None\<close> or
  \<^verbatim>\<open>NaN\<close>; pandas treats both as missing), a number or a string. Numbers are rationals:
  pandas compares an integer key with a float key by value, and every finite binary64 value
  is a rational. Strings are lists of code points below 256.
\<close>

datatype cell = NA | Num rat | Str string

text \<open>
  Every exception the code can raise is a value. The three handlers of \<^verbatim>\<open>load_data\<close>
  (\<^verbatim>\<open>FileNotFoundError\<close>, \<^verbatim>\<open>JSONDecodeError\<close>, \<^verbatim>\<open>Exception\<close>) catch all of them.
\<close>

datatype error = FileNotFoundError | JSONDecodeError | KeyError | TypeError | ValueError
  | MergeError




text \<open>A frame: its column labels and its rows, each row one cell per label.\<close>

record frame =
  columns :: "string list"
  rws :: "cell list list"

definition empty_frame :: frame where
  "empty_frame = \<lparr>columns = [], rws = []\<rparr>"

text \<open>\<^verbatim>\<open>DataFrame.empty\<close>: true when either axis has length 0.\<close>

definition df_empty :: "frame \<Rightarrow> bool" where
  "df_empty f \<longleftrightarrow> columns f = [] \<or> rws f = []"

text \<open>Labels in order of first appearance, as pandas collects the keys of a list of dicts.\<close>

fun uniq :: "'a list \<Rightarrow> 'a list \<Rightarrow> 'a list" where
  "uniq seen [] = seen"
| "uniq seen (x # xs) = (if x \<in> set seen then uniq seen xs else uniq (seen @ [x]) xs)"





fun loc :: "string \<Rightarrow> string list \<Rightarrow> nat" where
  "loc c [] = 0"
| "loc c (x # xs) = (if x = c then 0 else Suc (loc c xs))"



text \<open>\<^verbatim>\<open>df[c]\<close> as a column of cells: \<^verbatim>\<open>KeyError\<close> when the label is absent.\<close>

definition getitem :: "string \<Rightarrow> frame \<Rightarrow> error + cell list" where
  "getitem c f =
     (if c \<notin> set (columns f) then Inl KeyError
      else Inr (map (\<lambda>r. r ! loc c (columns f)) (rws f)))"


section \<open>The loaders\<close>

subsection \<open>Python's \<open>int\<close> on a string\<close>








subsection \<open>Courses: a list of one-pair dicts\<close>




subsection \<open>Clubs and club types: a column renamed\<close>



subsection \<open>Shots: the derived column\<close>

text \<open>
  \<^verbatim>\<open>shot_data['meters'] * 1.09361\<close>, cell by cell: a null stays null, a string makes the
  product raise \<^verbatim>\<open>TypeError\<close>. (In a column where every record says \<^verbatim>\<open>null\<close> pandas keeps
  the \<^verbatim>\<open>None\<close> objects and raises as well; a cell does not tell a \<^verbatim>\<open>null\<close> from a key
  that is missing, so this is not modelled.) The product is the exact one; the rounding of
  binary64 is not modelled, and nothing below depends on the value.
\<close>

fun is_str :: "cell \<Rightarrow> bool" where
  "is_str (Str s) = True"
| "is_str c = False"

fun is_num :: "cell \<Rightarrow> bool" where
  "is_num (Num r) = True"
| "is_num c = False"

definition times :: "cell list \<Rightarrow> rat \<Rightarrow> error + cell list" where
  "times xs k =
     (if list_ex is_str xs then Inl TypeError
      else Inr (map (\<lambda>x. case x of Num r \<Rightarrow> Num (r * k) | _ \<Rightarrow> x) xs))"

section \<open>The merge\<close>







section \<open>The module's tables and \<open>load_data\<close>\<close>

record tables =
  club_data :: frame
  club_types_data :: frame
  course_data :: frame
  shot_data :: frame
  merged_shot_data :: frame

text \<open>The module creates the five globals as empty frames.\<close>

definition initial :: tables where
  "initial = \<lparr>club_data = empty_frame, club_types_data = empty_frame,
     course_data = empty_frame, shot_data = empty_frame, merged_shot_data = empty_frame\<rparr>"















section \<open>The chart views\<close>

text \<open>
  The plotting library is outside the program: a figure is the data handed to it. It raises
  \<^verbatim>\<open>ValueError\<close> for a column the frame does not have.
\<close>

datatype figure =
  Histogram "cell list" nat string
  | Box "(cell \<times> cell) list" string
  | Bar "(cell \<times> nat) list" string

text \<open>
  What the route returns: the rendered page, the 404 of the last line, or the 500 the
  framework makes of an exception the view does not catch.
\<close>

datatype response = Page figure | NotFound | ServerError error

definition isin :: "cell list \<Rightarrow> cell list \<Rightarrow> bool list" where
  "isin xs vs = map (\<lambda>x. x \<in> set vs) xs"

text \<open>\<^verbatim>\<open>df[mask]\<close>: the rows where the mask holds.\<close>

definition mask_rows :: "frame \<Rightarrow> bool list \<Rightarrow> frame" where
  "mask_rows f m = f\<lparr>rws := map fst (filter snd (zip (rws f) m))\<rparr>"

definition non_putting :: "frame \<Rightarrow> error + frame" where
  "non_putting f =
     (case getitem ''lie'' f of
        Inl e \<Rightarrow> Inl e
      | Inr lies \<Rightarrow>
          Inr (mask_rows f (isin lies [Str ''TeeBox'', Str ''Fairway'', Str ''Rough'', Str ''Bunker''])))"

definition px_histogram :: "frame \<Rightarrow> string \<Rightarrow> nat \<Rightarrow> string \<Rightarrow> error + figure" where
  "px_histogram f x nbins title =
     (case getitem x f of
        Inl e \<Rightarrow> Inl ValueError
      | Inr xs \<Rightarrow> Inr (Histogram xs nbins title))"

definition px_box :: "frame \<Rightarrow> string \<Rightarrow> string \<Rightarrow> string \<Rightarrow> error + figure" where
  "px_box f x y title =
     (case getitem x f of
        Inl e \<Rightarrow> Inl ValueError
      | Inr xs \<Rightarrow>
          (case getitem y f of
             Inl e \<Rightarrow> Inl ValueError
           | Inr ys \<Rightarrow> Inr (Box (zip xs ys) title)))"

text \<open>
  \<^verbatim>\<open>value_counts()\<close> counts each value that is not null; \<^verbatim>\<open>sort_index()\<close> orders the
  counts by value, numbers by size and strings by code points, and raises \<^verbatim>\<open>TypeError\<close>
  when it has to compare a number with a string.
\<close>

definition value_counts :: "cell list \<Rightarrow> (cell \<times> nat) list" where
  "value_counts xs = map (\<lambda>v. (v, count_list xs v)) (uniq [] (filter (\<lambda>x. x \<noteq> NA) xs))"

fun num_of :: "cell \<Rightarrow> rat" where
  "num_of (Num r) = r"
| "num_of c = 0"

fun str_of :: "cell \<Rightarrow> string" where
  "str_of (Str s) = s"
| "str_of c = []"

definition sort_index :: "(cell \<times> nat) list \<Rightarrow> error + (cell \<times> nat) list" where
  "sort_index kvs =
     (if list_all (\<lambda>kv. is_num (fst kv)) kvs then Inr (sort_key (\<lambda>kv. num_of (fst kv)) kvs)
      else if list_all (\<lambda>kv. is_str (fst kv)) kvs then Inr (sort_key (\<lambda>kv. str_of (fst kv)) kvs)
      else Inl TypeError)"

text \<open>
  The \<^verbatim>\<open>if\<close>/\<^verbatim>\<open>elif\<close> chain of \<^verbatim>\<open>show_chart\<close>: \<^verbatim>\<open>None\<close> is the \<^verbatim>\<open>plot_json = {}\<close> the
  function starts with, which no branch replaces when the name is unknown or the merged
  table is empty.
\<close>

definition plot_json :: "frame \<Rightarrow> string \<Rightarrow> error + figure option" where
  "plot_json merged chart_name =
     (if chart_name = ''shot_distance_distribution_overall'' then
        (if \<not> df_empty merged then
           (case non_putting merged of
              Inl e \<Rightarrow> Inl e
            | Inr non_putting_shots \<Rightarrow>
                (case px_histogram non_putting_shots ''yards'' 50
                        ''Overall Shot Distance Distribution'' of
                   Inl e \<Rightarrow> Inl e
                 | Inr fig \<Rightarrow> Inr (Some fig)))
         else Inr None)
      else if chart_name = ''shot_distance_by_lie'' then
        (if \<not> df_empty merged then
           (case non_putting merged of
              Inl e \<Rightarrow> Inl e
            | Inr non_putting_lies \<Rightarrow>
                (case px_box non_putting_lies ''lie'' ''yards'' ''Shot Distance by Lie Type'' of
                   Inl e \<Rightarrow> Inl e
                 | Inr fig \<Rightarrow> Inr (Some fig)))
         else Inr None)
      else if chart_name = ''shots_per_hole'' then
        (if \<not> df_empty merged then
           (case getitem ''holeNumber'' merged of
              Inl e \<Rightarrow> Inl e
            | Inr holes \<Rightarrow>
                (case sort_index (value_counts holes) of
                   Inl e \<Rightarrow> Inl e
                 | Inr shots_count \<Rightarrow> Inr (Some (Bar shots_count ''Number of Shots Per Hole''))))
         else Inr None)
      else Inr None)"

definition show_chart :: "tables \<Rightarrow> string \<Rightarrow> response" where
  "show_chart s chart_name =
     (case plot_json (merged_shot_data s) chart_name of
        Inl e \<Rightarrow> ServerError e
      | Inr None \<Rightarrow> NotFound
      | Inr (Some fig) \<Rightarrow> Page fig)"

section \<open>Sample inputs\<close>

text \<open>A merged table of three shots, one of them a putt.\<close>

definition sample_tables :: tables where
  "sample_tables = initial\<lparr>merged_shot_data :=
     \<lparr>columns = [''lie'', ''holeNumber'', ''yards''],
      rws = [[Str ''TeeBox'', Num 1, Num 250], [Str ''Green'', Num 1, Num 3],
             [Str ''Fairway'', Num 2, Num 150]]\<rparr>\<rparr>"







section \<open>Properties of the chart views\<close>

text \<open>
  C10. A chart name that is none of the three view names gets the 404 answer, whatever the
  tables hold: no branch of the chain fires, \<^verbatim>\<open>plot_json\<close> stays empty.
\<close>

theorem unknown_chart_not_found:
  "chart_name \<notin> {''shot_distance_distribution_overall'', ''shot_distance_by_lie'',
       ''shots_per_hole''}
   \<Longrightarrow> show_chart s chart_name = NotFound"
  by (simp add: show_chart_def plot_json_def)

theorem unknown_chart_not_found_witness:
  "''distance_by_club_type'' \<notin> {''shot_distance_distribution_overall'',
       ''shot_distance_by_lie'', ''shots_per_hole''}
   \<and> show_chart sample_tables ''distance_by_club_type'' = NotFound"
  using unknown_chart_not_found [of "''distance_by_club_type''" sample_tables] by simp

text \<open>
  C8. With an empty merged table (no rows, or no columns) each of the three views answers
  404; none of them reads a column, so none can raise.
\<close>

theorem empty_table_not_found:
  "df_empty (merged_shot_data s) \<Longrightarrow>
     show_chart s ''shot_distance_distribution_overall'' = NotFound
     \<and> show_chart s ''shot_distance_by_lie'' = NotFound
     \<and> show_chart s ''shots_per_hole'' = NotFound"
  by (simp add: show_chart_def plot_json_def)

theorem empty_table_not_found_witness:
  "df_empty (merged_shot_data initial)
   \<and> show_chart initial ''shot_distance_distribution_overall'' = NotFound
   \<and> show_chart initial ''shot_distance_by_lie'' = NotFound
   \<and> show_chart initial ''shots_per_hole'' = NotFound"
proof -
  have e: "df_empty (merged_shot_data initial)"
    by (simp add: initial_def empty_frame_def df_empty_def)
  from empty_table_not_found [OF e] e show ?thesis by simp
qed

text \<open>The boolean mask of \<^verbatim>\<open>isin\<close>, applied to the rows it was computed from, is a filter.\<close>

lemma mask_is_filter: "map fst (filter snd (zip xs (map P xs))) = filter P xs"
  by (induction xs) auto

lemma zip_of_maps: "zip (map f xs) (map g xs) = map (\<lambda>x. (f x, g x)) xs"
  by (induction xs) auto

lemma non_putting_filter:
  "''lie'' \<in> set (columns f) \<Longrightarrow>
   non_putting f = Inr (f\<lparr>rws := filter (\<lambda>r. r ! loc ''lie'' (columns f) \<in>
       {Str ''TeeBox'', Str ''Fairway'', Str ''Rough'', Str ''Bunker''}) (rws f)\<rparr>)"
  unfolding non_putting_def getitem_def mask_rows_def isin_def
  by (simp add: o_def mask_is_filter [where P = "\<lambda>r. r ! loc ''lie'' (columns f) \<in>
       set [Str ''TeeBox'', Str ''Fairway'', Str ''Rough'', Str ''Bunker'']", simplified])

text \<open>
  C9. Where the merged table has rows and the columns \<^verbatim>\<open>lie\<close> and \<^verbatim>\<open>yards\<close>, the histogram
  gets the \<^verbatim>\<open>yards\<close>, and the box plot the (\<^verbatim>\<open>lie\<close>, \<^verbatim>\<open>yards\<close>) pairs, of exactly the rows
  whose \<^verbatim>\<open>lie\<close> is TeeBox, Fairway, Rough or Bunker, in table order. A row with
  \<^verbatim>\<open>lie = Green\<close> is not among them.
\<close>

theorem distance_views_filter:
  assumes "\<not> df_empty (merged_shot_data s)"
    and "''lie'' \<in> set (columns (merged_shot_data s))"
    and "''yards'' \<in> set (columns (merged_shot_data s))"
  shows "let lie = (\<lambda>r. r ! loc ''lie'' (columns (merged_shot_data s)));
             yards = (\<lambda>r. r ! loc ''yards'' (columns (merged_shot_data s)));
             kept = filter (\<lambda>r. lie r \<in> {Str ''TeeBox'', Str ''Fairway'', Str ''Rough'',
                                          Str ''Bunker''})
                      (rws (merged_shot_data s))
         in show_chart s ''shot_distance_distribution_overall'' =
              Page (Histogram (map yards kept) 50 ''Overall Shot Distance Distribution'')
            \<and> show_chart s ''shot_distance_by_lie'' =
              Page (Box (map (\<lambda>r. (lie r, yards r)) kept) ''Shot Distance by Lie Type'')
            \<and> (\<forall>r \<in> set (rws (merged_shot_data s)). lie r = Str ''Green'' \<longrightarrow> r \<notin> set kept)"
  using assms
  by (auto simp add: Let_def show_chart_def plot_json_def non_putting_filter px_histogram_def
        px_box_def getitem_def zip_of_maps)

theorem distance_views_filter_witness:
  "\<not> df_empty (merged_shot_data sample_tables)
   \<and> ''lie'' \<in> set (columns (merged_shot_data sample_tables))
   \<and> ''yards'' \<in> set (columns (merged_shot_data sample_tables))
   \<and> show_chart sample_tables ''shot_distance_distribution_overall'' =
        Page (Histogram [Num 250, Num 150] 50 ''Overall Shot Distance Distribution'')
   \<and> show_chart sample_tables ''shot_distance_by_lie'' =
        Page (Box [(Str ''TeeBox'', Num 250), (Str ''Fairway'', Num 150)]
                ''Shot Distance by Lie Type'')"
proof -
  have a: "\<not> df_empty (merged_shot_data sample_tables)"
    by (simp add: sample_tables_def df_empty_def)
  have b: "''lie'' \<in> set (columns (merged_shot_data sample_tables))"
    by (simp add: sample_tables_def)
  have c: "''yards'' \<in> set (columns (merged_shot_data sample_tables))"
    by (simp add: sample_tables_def)
  from distance_views_filter [OF a b c] a b c show ?thesis
    by (simp add: Let_def sample_tables_def)
qed

section \<open>Properties of the loaders\<close>




















section \<open>Properties of \<open>load_data\<close>\<close>




section \<open>Properties of the merge\<close>

subsection \<open>Frames keep one cell per label\<close>














subsection \<open>Selected columns and labels\<close>











subsection \<open>Where the labels of a join stand\<close>





















subsection \<open>A run of \<open>load_data\<close> that raises nothing\<close>



















end
